theory Spec2Isabelle
  imports Complex_Main
begin

section \<open>Common JavaScript notions\<close>

text \<open>
  A JavaScript number is modelled by a real number, a decimal constant of the source by
  the same decimal, and a comparison of the source by the comparison of the reals.
  Arithmetic on doubles that rounds its result is not computed on the reals: it is a
  parameter of the model (see \<open>js_runtime\<close> below). Strings are lists of characters.
  An optional field (\<^verbatim>\<open>risk_level?: string\<close>) is an \<open>option\<close>; \<open>None\<close> is
  \<^verbatim>\<open>undefined\<close>.
\<close>

text \<open>
  A thrown value: \<^verbatim>\<open>new Error(msg)\<close> of the source, the \<^verbatim>\<open>TypeError\<close> of a rejected
  \<^verbatim>\<open>fetch\<close>, the \<^verbatim>\<open>SyntaxError\<close> of a body or message that is not JSON, and the error
  of a rejected \<^verbatim>\<open>AsyncStorage\<close> call, each with its message.
\<close>

datatype js_error =
    Error string
  | TypeError string
  | SyntaxError string
  | StorageError string

definition error_message :: "js_error \<Rightarrow> string" where
  "error_message e =
     (case e of Error m \<Rightarrow> m | TypeError m \<Rightarrow> m | SyntaxError m \<Rightarrow> m | StorageError m \<Rightarrow> m)"

text \<open>Truthiness of an optional string: \<^verbatim>\<open>undefined\<close> and the empty string are falsy.\<close>

definition truthy_str :: "string option \<Rightarrow> bool" where
  "truthy_str s = (case s of None \<Rightarrow> False | Some t \<Rightarrow> t \<noteq> [])"

text \<open>
  \<^verbatim>\<open>Array.prototype.slice(start)\<close> with one argument: a negative \<open>start\<close> counts from the
  end and is clamped at index 0, a non-negative one is clamped at the length.
\<close>

definition js_slice :: "int \<Rightarrow> 'a list \<Rightarrow> 'a list" where
  "js_slice start xs =
     (let len = int (length xs);
          k = (if start < 0 then max (len + start) 0 else min start len)
      in drop (nat k) xs)"

section \<open>Web dashboard: the reading and the API client (services/api.ts)\<close>

record FloodData =
  timestamp :: string
  floodProbability :: real
  risk_level :: "string option"
  rainfall :: real
  waterLevel :: real
  temperature :: real
  humidity :: real
  windSpeed :: real
  soilMoisture :: real
  drainageCapacity :: real
  riverDischarge :: real
  deforestation :: real
  climateChange :: real
  cloudCover :: real
  urbanization :: real
  latitude :: "real option"
  longitude :: "real option"

text \<open>A parsed JSON document, as \<^verbatim>\<open>response.json()\<close> and \<^verbatim>\<open>JSON.parse\<close> deliver it.\<close>

datatype json =
    JNull
  | JBool bool
  | JNum real
  | JStr string
  | JArr "json list"
  | JObj "(string \<times> json) list"

text \<open>
  What \<^verbatim>\<open>fetch\<close> settles to: a rejection with its error (no response at all), or a
  response with its \<open>ok\<close> flag and what \<^verbatim>\<open>response.json()\<close> settles to: \<open>Inl\<close> when
  the body is not JSON and the call rejects, \<open>Inr\<close> the parsed body.
\<close>

datatype 'b fetch_result =
    Rejected js_error
  | Response bool "js_error + 'b"

text \<open>
  \<^verbatim>\<open>getRecentReadings\<close> (api.ts, lines 107-115): \<open>Inl\<close> is the rejected promise (a
  thrown error), \<open>Inr\<close> the array the caller receives. \<^verbatim>\<open>await fetch\<close> and
  \<^verbatim>\<open>await response.json()\<close> are not inside any \<^verbatim>\<open>try\<close>, so their rejections leave
  the function.
\<close>

definition getRecentReadings :: "json fetch_result \<Rightarrow> js_error + json list" where
  "getRecentReadings res =
     (case res of
        Rejected e \<Rightarrow> Inl e
      | Response ok body \<Rightarrow>
          if \<not> ok then Inl (Error ''Failed to fetch recent readings'')
          else (case body of
                  Inl e \<Rightarrow> Inl e
                | Inr data \<Rightarrow> (case data of JArr xs \<Rightarrow> Inr xs | _ \<Rightarrow> Inr [])))"

text \<open>\<^verbatim>\<open>Array.isArray\<close> on a parsed document.\<close>

definition isArray :: "json \<Rightarrow> bool" where
  "isArray data = (case data of JArr xs \<Rightarrow> True | _ \<Rightarrow> False)"

section \<open>Web dashboard: the rolling window of readings (FloodMonitoringDashboard)\<close>

text \<open>
  The component state the WebSocket listener writes, and the number of
  \<^verbatim>\<open>triggerAutoAlerts\<close> calls it has made (each is one POST to
  \<^verbatim>\<open>/api/alerts/auto-send\<close>, with its own \<^verbatim>\<open>try/catch\<close>).
\<close>

record dashboard =
  data :: "FloodData list"
  currentData :: "FloodData option"
  isConnected :: bool
  autoAlerts :: nat

text \<open>\<^verbatim>\<open>String.prototype.toUpperCase\<close> on the ASCII letters.\<close>

definition toUpperChar :: "char \<Rightarrow> char" where
  "toUpperChar c =
     (let n = (of_char c :: nat) in if 97 \<le> n \<and> n \<le> 122 then char_of (n - 32) else c)"

definition toUpperCase :: "string \<Rightarrow> string" where
  "toUpperCase s = map toUpperChar s"

text \<open>
  The callback given to \<^verbatim>\<open>floodAPI.onRealtimeData\<close>:
  \<^verbatim>\<open>setData(prev => [...prev.slice(-49), newData])\<close>.
\<close>

definition onRealtimeData_callback :: "FloodData \<Rightarrow> dashboard \<Rightarrow> dashboard" where
  "onRealtimeData_callback newData st =
     (let st1 = st\<lparr>currentData := Some newData,
                    data := js_slice (- 49) (data st) @ [newData],
                    isConnected := True\<rparr>
      in if truthy_str (risk_level newData)
            \<and> toUpperCase (the (risk_level newData)) \<in> set [''HIGH'', ''SEVERE'']
         then st1\<lparr>autoAlerts := autoAlerts st1 + 1\<rparr>
         else st1)"

text \<open>Delivering a sequence of readings, oldest first.\<close>

definition deliver :: "dashboard \<Rightarrow> FloodData list \<Rightarrow> dashboard" where
  "deliver st rs = foldl (\<lambda>s r. onRealtimeData_callback r s) st rs"

section \<open>Web dashboard: status card and sample alerts\<close>

text \<open>
  The library functions that format or read a number or a date are parameters of the
  model: \<open>toFixed d x\<close> is \<^verbatim>\<open>x.toFixed(d)\<close>, \<open>toISOString t\<close> is the ISO text of the
  date with epoch milliseconds \<open>t\<close>, \<open>numToString x\<close> is the text of the number \<open>x\<close>
  in a template string or from \<^verbatim>\<open>toString()\<close>, \<open>parseFloat s\<close> is the number read from
  the text \<open>s\<close>. So is the arithmetic of doubles where it rounds: \<open>minus x y\<close> is
  \<^verbatim>\<open>x - y\<close> and \<open>times x y\<close> is \<^verbatim>\<open>x * y\<close> as the runtime computes them, which need
  not be the exact difference and product. Comparisons are exact, and sums and
  differences of the integer millisecond counts are exact.
\<close>

record js_runtime =
  toFixed :: "nat \<Rightarrow> real \<Rightarrow> string"
  toISOString :: "int \<Rightarrow> string"
  numToString :: "real \<Rightarrow> string"
  parseFloat :: "string \<Rightarrow> real"
  minus :: "real \<Rightarrow> real \<Rightarrow> real"
  times :: "real \<Rightarrow> real \<Rightarrow> real"

text \<open>
  The class of the flood-risk figure in \<^verbatim>\<open>StatusCards\<close> (lines 64-73) and its text.
  Without a reading the card shows the grey placeholder.
\<close>

definition risk_color_class :: "string option \<Rightarrow> string" where
  "risk_color_class rl =
     (if \<not> truthy_str rl then ''text-gray-600''
      else if rl = Some ''LOW'' then ''text-green-600''
      else if rl = Some ''MILD'' then ''text-yellow-600''
      else if rl = Some ''HIGH'' then ''text-orange-600''
      else ''text-red-600'')"

definition StatusCards_floodRisk :: "js_runtime \<Rightarrow> FloodData option \<Rightarrow> string \<times> string" where
  "StatusCards_floodRisk rt cur =
     (case cur of
        None \<Rightarrow> (''text-2xl font-bold text-gray-400'', ''---%'')
      | Some d \<Rightarrow>
          (''text-2xl font-bold '' @ risk_color_class (risk_level d),
           toFixed rt 1 (times rt (floodProbability d) 100) @ ''%''))"

datatype alert_type = critical | warning | info | success

record Alert =
  alert_id :: string
  alert_type :: alert_type
  title :: string
  message :: string
  alert_timestamp :: string
  acknowledged :: bool

text \<open>
  \<^verbatim>\<open>generateSampleAlerts\<close> (AlertsPanel.tsx, lines 161-199); \<open>now\<close> is the epoch
  milliseconds of \<^verbatim>\<open>new Date()\<close>.
\<close>

definition generateSampleAlerts :: "js_runtime \<Rightarrow> int \<Rightarrow> real \<Rightarrow> string option \<Rightarrow> Alert list" where
  "generateSampleAlerts rt now p riskLevel =
     (let alerts =
        (if riskLevel = Some ''SEVERE'' then
           [\<lparr>alert_id = ''critical-'' @ numToString rt (of_int now),
             alert_type = critical,
             title = ''SEVERE Flood Risk (Model Determined)'',
             message = ''Model classified risk as SEVERE (probability: ''
                        @ toFixed rt 1 (times rt p 100) @ ''%). Immediate action required.'',
             alert_timestamp = toISOString rt now,
             acknowledged = False\<rparr>]
         else if riskLevel = Some ''HIGH'' then
           [\<lparr>alert_id = ''warning-'' @ numToString rt (of_int now),
             alert_type = warning,
             title = ''HIGH Flood Risk (Model Determined)'',
             message = ''Model classified risk as HIGH (probability: ''
                        @ toFixed rt 1 (times rt p 100) @ ''%). Monitor conditions closely.'',
             alert_timestamp = toISOString rt now,
             acknowledged = False\<rparr>]
         else [])
      in if length alerts = 0 then
           alerts @
           [\<lparr>alert_id = ''info-1'',
             alert_type = info,
             title = ''System Status'',
             message = ''All sensors are operating normally. Last data sync completed successfully.'',
             alert_timestamp = toISOString rt (now - 300000),
             acknowledged = True\<rparr>]
         else alerts)"

section \<open>Web dashboard: the map marker (FloodMap)\<close>

text \<open>
  The two colour functions of the map component. \<^verbatim>\<open>getModelRiskColor\<close> (lines 46-54)
  colours by the label; \<^verbatim>\<open>getMarkerColor\<close> (lines 794-799) colours the sensor marker by
  thresholds on the probability, and is called with \<^verbatim>\<open>latestData.floodProbability\<close>.
\<close>

definition getModelRiskColor :: "string option \<Rightarrow> string" where
  "getModelRiskColor riskLevel =
     (case map_option toUpperCase riskLevel of
        None \<Rightarrow> ''#6b7280''
      | Some u \<Rightarrow>
          if u = ''SEVERE'' then ''#ef4444''
          else if u = ''HIGH'' then ''#f97316''
          else if u = ''MILD'' then ''#eab308''
          else if u = ''LOW'' then ''#22c55e''
          else ''#6b7280'')"

definition getMarkerColor :: "real \<Rightarrow> string" where
  "getMarkerColor risk =
     (if risk < 0.3 then ''#22c55e''
      else if risk < 0.5 then ''#eab308''
      else if risk < 0.7 then ''#f97316''
      else ''#ef4444'')"

definition sensorMarkerColor :: "FloodData \<Rightarrow> string" where
  "sensorMarkerColor latestData = getMarkerColor (floodProbability latestData)"

section \<open>Web API client: the WebSocket (FloodMonitoringAPI)\<close>

text \<open>
  A listener is a function of the application, known to the client by its identity (a
  number): \<^verbatim>\<open>indexOf\<close> compares listeners by identity. The calls a listener can make
  on the client while it runs are the client's synchronous methods.
\<close>

datatype api_call =
    Call_connectWebSocket
  | Call_disconnectWebSocket
  | Call_onRealtimeData nat
  | Call_removeRealtimeListener nat

text \<open>
  What the listeners do: listener \<open>l\<close>, called with the parsed message \<open>d\<close> in the
  application state \<open>w\<close>, makes the listed calls on the client, in this order, then
  returns (\<open>None\<close>) or throws (\<open>Some e\<close>), and leaves the application in a new state;
  what it did before throwing stays done.
\<close>

type_synonym ('d, 'w) listeners = "nat \<Rightarrow> 'd \<Rightarrow> 'w \<Rightarrow> api_call list \<times> js_error option \<times> 'w"

text \<open>
  The client: \<open>ws\<close> is the handle of the current socket; \<open>wsListeners\<close> is the array
  \<^verbatim>\<open>this.wsListeners\<close>, which \<^verbatim>\<open>push\<close> and \<^verbatim>\<open>splice\<close> change in place;
  \<open>retired\<close> lists the arrays that \<^verbatim>\<open>this.wsListeners = []\<close> has replaced, oldest
  first: nothing changes such an array any more, but a \<^verbatim>\<open>forEach\<close> that started on it
  still reads it. \<open>sockets\<close> counts the \<^verbatim>\<open>WebSocket\<close> objects constructed so far,
  \<open>timeouts\<close> lists the delays (in ms) of the \<^verbatim>\<open>setTimeout\<close> calls made so far,
  oldest first (the callback of each is \<^verbatim>\<open>connectWebSocket\<close>), \<open>fired\<close> counts those
  that have run, \<open>console\<close> holds the lines of \<^verbatim>\<open>console.log\<close> and
  \<^verbatim>\<open>console.error\<close>, \<open>world\<close> is the application state, and \<open>invoked\<close> records
  each listener call: the listener and its argument.
\<close>

record ('d, 'w) client =
  ws :: "nat option"
  wsListeners :: "nat list"
  retired :: "nat list list"
  sockets :: nat
  timeouts :: "nat list"
  fired :: nat
  console :: "string list"
  world :: 'w
  invoked :: "(nat \<times> 'd) list"

text \<open>
  \<^verbatim>\<open>connectWebSocket\<close>: a new socket with the four handlers attached. The constructor is
  called with a constant, well-formed URL and is modelled as not throwing.
\<close>

definition connectWebSocket :: "('d, 'w) client \<Rightarrow> ('d, 'w) client" where
  "connectWebSocket c = c\<lparr>ws := Some (sockets c), sockets := sockets c + 1\<rparr>"

definition onopen :: "('d, 'w) client \<Rightarrow> ('d, 'w) client" where
  "onopen c = c\<lparr>console := console c @ [''WebSocket connected'']\<rparr>"

definition onRealtimeData :: "nat \<Rightarrow> ('d, 'w) client \<Rightarrow> ('d, 'w) client" where
  "onRealtimeData callback c = c\<lparr>wsListeners := wsListeners c @ [callback]\<rparr>"

text \<open>
  \<^verbatim>\<open>removeRealtimeListener\<close> (lines 184-189): \<^verbatim>\<open>indexOf\<close> gives the first index of the
  listener or -1, \<^verbatim>\<open>splice(index, 1)\<close> removes the element at that index.
\<close>

definition indexOf :: "nat list \<Rightarrow> nat \<Rightarrow> int" where
  "indexOf xs x =
     (if x \<in> set xs then int (length (takeWhile (\<lambda>y. y \<noteq> x) xs)) else - 1)"

definition splice1 :: "nat \<Rightarrow> 'a list \<Rightarrow> 'a list" where
  "splice1 i xs = take i xs @ drop (Suc i) xs"

definition removeRealtimeListener :: "nat \<Rightarrow> ('d, 'w) client \<Rightarrow> ('d, 'w) client" where
  "removeRealtimeListener callback c =
     (let index = indexOf (wsListeners c) callback
      in if index > - 1 then c\<lparr>wsListeners := splice1 (nat index) (wsListeners c)\<rparr> else c)"

text \<open>
  \<^verbatim>\<open>disconnectWebSocket\<close> (lines 192-198): \<^verbatim>\<open>this.ws.close()\<close> makes the browser
  deliver a close event to the socket's \<^verbatim>\<open>onclose\<close> later; the handler is not detached.
  \<^verbatim>\<open>this.wsListeners = []\<close> installs a new array and leaves the old one as it is.
\<close>

definition disconnectWebSocket :: "('d, 'w) client \<Rightarrow> ('d, 'w) client" where
  "disconnectWebSocket c =
     (if ws c \<noteq> None then c\<lparr>ws := None\<rparr> else c)
       \<lparr>retired := retired c @ [wsListeners c], wsListeners := []\<rparr>"

definition apply_call :: "api_call \<Rightarrow> ('d, 'w) client \<Rightarrow> ('d, 'w) client" where
  "apply_call a c =
     (case a of
        Call_connectWebSocket \<Rightarrow> connectWebSocket c
      | Call_disconnectWebSocket \<Rightarrow> disconnectWebSocket c
      | Call_onRealtimeData cb \<Rightarrow> onRealtimeData cb c
      | Call_removeRealtimeListener cb \<Rightarrow> removeRealtimeListener cb c)"

definition apply_calls :: "api_call list \<Rightarrow> ('d, 'w) client \<Rightarrow> ('d, 'w) client" where
  "apply_calls calls c = foldl (\<lambda>s a. apply_call a s) c calls"

text \<open>
  The array with number \<open>g\<close>, counting the arrays in the order they were installed: a
  retired one, or the current one.
\<close>

definition array_of :: "('d, 'w) client \<Rightarrow> nat \<Rightarrow> nat list" where
  "array_of c g = (if g < length (retired c) then retired c ! g else wsListeners c)"

text \<open>One call \<^verbatim>\<open>listener(data)\<close>: the exception it throws, and the client after it.\<close>

definition invoke ::
  "('d, 'w) listeners \<Rightarrow> nat \<Rightarrow> 'd \<Rightarrow> ('d, 'w) client \<Rightarrow> js_error option \<times> ('d, 'w) client"
where
  "invoke beh l d c =
     (let c1 = c\<lparr>invoked := invoked c @ [(l, d)]\<rparr>;
          r = beh l d (world c1);
          c2 = apply_calls (fst r) (c1\<lparr>world := snd (snd r)\<rparr>)
      in (fst (snd r), c2))"

text \<open>
  \<^verbatim>\<open>Array.prototype.forEach\<close> on the array with number \<open>g\<close>: the length is read once,
  before the loop; \<open>k\<close> is the index and \<open>n\<close> the number of indices still to visit. At
  each index the array is read as it is then: an index beyond its present end is passed
  over, otherwise the element now at the index is called. A throwing listener ends the
  loop.
\<close>

fun forEach_loop ::
  "('d, 'w) listeners \<Rightarrow> nat \<Rightarrow> nat \<Rightarrow> nat \<Rightarrow> 'd \<Rightarrow> ('d, 'w) client
     \<Rightarrow> js_error option \<times> ('d, 'w) client"
where
  "forEach_loop beh g k 0 d c = (None, c)"
| "forEach_loop beh g k (Suc n) d c =
     (if k < length (array_of c g) then
        (let r = invoke beh (array_of c g ! k) d c
         in case fst r of
              Some e \<Rightarrow> (Some e, snd r)
            | None \<Rightarrow> forEach_loop beh g (Suc k) n d (snd r))
      else forEach_loop beh g (Suc k) n d c)"

text \<open>\<^verbatim>\<open>this.wsListeners.forEach(listener => listener(data))\<close>, on the current array.\<close>

definition forEach ::
  "('d, 'w) listeners \<Rightarrow> 'd \<Rightarrow> ('d, 'w) client \<Rightarrow> js_error option \<times> ('d, 'w) client"
where
  "forEach beh d c = forEach_loop beh (length (retired c)) 0 (length (wsListeners c)) d c"

text \<open>
  \<^verbatim>\<open>ws.onmessage\<close> (lines 153-160). \<open>parse\<close> is \<^verbatim>\<open>JSON.parse\<close>: \<open>Inl\<close> when it
  throws. The first component of the result is the exception that leaves the handler.
\<close>

definition onmessage ::
  "(string \<Rightarrow> js_error + 'd) \<Rightarrow> ('d, 'w) listeners \<Rightarrow> string \<Rightarrow> ('d, 'w) client
     \<Rightarrow> js_error option \<times> ('d, 'w) client"
where
  "onmessage parse beh msg c =
     (let tried =
        (case parse msg of
           Inl e \<Rightarrow> (Some e, c)
         | Inr d \<Rightarrow> forEach beh d c)
      in case fst tried of
           None \<Rightarrow> (None, snd tried)
         | Some e \<Rightarrow>
             (None, (snd tried)\<lparr>console := console (snd tried)
                       @ [''Error parsing WebSocket data: '' @ error_message e]\<rparr>))"

text \<open>\<^verbatim>\<open>ws.onclose\<close> (lines 162-168) and the timer callback it schedules.\<close>

definition onclose :: "('d, 'w) client \<Rightarrow> ('d, 'w) client" where
  "onclose c = c\<lparr>console := console c @ [''WebSocket disconnected''],
                   timeouts := timeouts c @ [5000]\<rparr>"

definition onerror :: "('d, 'w) client \<Rightarrow> ('d, 'w) client" where
  "onerror c = c\<lparr>console := console c @ [''WebSocket error:'']\<rparr>"

definition timeout_fires :: "('d, 'w) client \<Rightarrow> ('d, 'w) client" where
  "timeout_fires c =
     (if fired c < length (timeouts c) then connectWebSocket (c\<lparr>fired := fired c + 1\<rparr>) else c)"

text \<open>What can happen to the client: a socket event, a timer, or a call of the application.\<close>

datatype event =
    Opened
  | Message string
  | Closed
  | Errored
  | TimeoutFired
  | Called api_call

definition step ::
  "(string \<Rightarrow> js_error + 'd) \<Rightarrow> ('d, 'w) listeners \<Rightarrow> ('d, 'w) client \<Rightarrow> event
     \<Rightarrow> ('d, 'w) client"
where
  "step parse beh c ev =
     (case ev of
        Opened \<Rightarrow> onopen c
      | Message msg \<Rightarrow> snd (onmessage parse beh msg c)
      | Closed \<Rightarrow> onclose c
      | Errored \<Rightarrow> onerror c
      | TimeoutFired \<Rightarrow> timeout_fires c
      | Called a \<Rightarrow> apply_call a c)"

definition run ::
  "(string \<Rightarrow> js_error + 'd) \<Rightarrow> ('d, 'w) listeners \<Rightarrow> ('d, 'w) client \<Rightarrow> event list
     \<Rightarrow> ('d, 'w) client"
where
  "run parse beh c evs = foldl (step parse beh) c evs"

definition is_Closed :: "event \<Rightarrow> bool" where
  "is_Closed ev = (case ev of Closed \<Rightarrow> True | _ \<Rightarrow> False)"




section \<open>Web dashboard: registration form (AlertPortal)\<close>

record registration =
  phone_number :: string
  name :: string
  area :: string
  reg_latitude :: real
  reg_longitude :: real

datatype message_type = msg_success | msg_error

text \<open>
  The component state \<^verbatim>\<open>handleRegistration\<close> touches; \<open>posts\<close> lists the bodies of the
  POST requests sent to \<^verbatim>\<open>/api/users/register\<close>, \<open>userFetches\<close> counts the calls of
  \<^verbatim>\<open>fetchUsers\<close>.
\<close>

record portal =
  registrationData :: registration
  portal_message :: "(message_type \<times> string) option"
  loading :: bool
  posts :: "registration list"
  userFetches :: nat

definition is_digit :: "char \<Rightarrow> bool" where
  "is_digit c = (let n = (of_char c :: nat) in 48 \<le> n \<and> n \<le> 57)"

text \<open>
  \<^verbatim>\<open>/^\+[1-9]\d{1,14}$/.test(s)\<close>: a plus sign, one digit from 1 to 9, then between 1
  and 14 digits, and nothing else (the expression has no flags, so \<^verbatim>\<open>$\<close> is the end of
  the input and \<^verbatim>\<open>\d\<close> is an ASCII digit).
\<close>

definition phoneRegex_test :: "string \<Rightarrow> bool" where
  "phoneRegex_test s =
     (case s of
        c0 # c1 # rest \<Rightarrow>
          c0 = CHR ''+''
          \<and> is_digit c1 \<and> c1 \<noteq> CHR ''0''
          \<and> 1 \<le> length rest \<and> length rest \<le> 14
          \<and> list_all is_digit rest
      | _ \<Rightarrow> False)"

text \<open>
  \<^verbatim>\<open>String.prototype.trim\<close>: white space and line terminators are removed at both ends
  (of those, the characters a \<open>char\<close> can hold: tab, line feed, vertical tab, form feed,
  carriage return, space and no-break space).
\<close>

definition is_space :: "char \<Rightarrow> bool" where
  "is_space c = ((of_char c :: nat) \<in> set [9, 10, 11, 12, 13, 32, 160])"

definition trim :: "string \<Rightarrow> string" where
  "trim s = rev (dropWhile is_space (rev (dropWhile is_space s)))"

text \<open>
  \<^verbatim>\<open>handleRegistration\<close> (lines 108-157). \<open>net\<close> is what the POST settles to, should it be
  sent; the body of a response that is not ok is its \<^verbatim>\<open>detail\<close> field, \<open>None\<close> when the
  field is absent or empty.
\<close>

definition handleRegistration :: "(string option) fetch_result \<Rightarrow> portal \<Rightarrow> portal" where
  "handleRegistration net st =
     (let rd = registrationData st in
      if \<not> phoneRegex_test (phone_number rd) then
        st\<lparr>portal_message :=
             Some (msg_error, ''Please enter a valid phone number (e.g., +919876543210)'')\<rparr>
      else if trim (name rd) = [] then
        st\<lparr>portal_message := Some (msg_error, ''Please enter your name'')\<rparr>
      else if area rd = [] then
        st\<lparr>portal_message := Some (msg_error, ''Please select your area'')\<rparr>
      else
        (let st1 = st\<lparr>loading := True, posts := posts st @ [rd]\<rparr>;
             failed = (\<lambda>e. st1\<lparr>portal_message := Some (msg_error, error_message e)\<rparr>);
             st2 =
               (case net of
                  Rejected e \<Rightarrow> failed e
                | Response ok body \<Rightarrow>
                    if ok then
                      st1\<lparr>portal_message :=
                            Some (msg_success,
                              ''Registration successful! You will receive flood alerts on your phone.''),
                          registrationData :=
                            \<lparr>phone_number = [], name = [], area = [],
                             reg_latitude = 30.3165, reg_longitude = 78.0322\<rparr>,
                          userFetches := userFetches st1 + 1\<rparr>
                    else
                      (case body of
                         Inl e \<Rightarrow> failed e
                       | Inr detail \<Rightarrow>
                           failed (Error (case detail of
                                            None \<Rightarrow> ''Registration failed''
                                          | Some d \<Rightarrow> d))))
         in st2\<lparr>loading := False\<rparr>))"

text \<open>The three checks of the form taken together.\<close>

definition valid_registration :: "registration \<Rightarrow> bool" where
  "valid_registration rd =
     (phoneRegex_test (phone_number rd) \<and> trim (name rd) \<noteq> [] \<and> area rd \<noteq> [])"

section \<open>Mobile app: the API service (App.tsx)\<close>

text \<open>The app's own \<^verbatim>\<open>FloodData\<close> interface (lines 13-22).\<close>

record MobileFloodData =
  riskLevel :: string
  riskPercentage :: real
  m_rainfall :: real
  m_waterLevel :: real
  m_temperature :: real
  m_humidity :: real
  lastUpdated :: string
  recommendations :: "string list"

text \<open>An entry of the alert history kept in \<^verbatim>\<open>AsyncStorage\<close>.\<close>

record stored_alert =
  sa_id :: string
  sa_title :: string
  sa_message :: string
  sa_riskLevel :: string
  sa_timestamp :: string
  sa_read :: bool

text \<open>
  The device: the three \<^verbatim>\<open>AsyncStorage\<close> keys the service uses (\<open>None\<close> is an absent
  key; the numbers are stored as their text and read back with \<^verbatim>\<open>parseFloat\<close> and
  \<^verbatim>\<open>parseInt\<close>, which gives the number written), the \<^verbatim>\<open>Alert.alert\<close> dialogs shown so
  far (title and message), the number of POSTs to \<^verbatim>\<open>/api/alerts/auto-send\<close>, and the
  console: the lines written with \<^verbatim>\<open>console.error\<close> and the line that reports a
  suppressed alert.
\<close>

record phone =
  lastRiskLevel :: "real option"
  lastFloodAlert :: "int option"
  alertHistory :: "stored_alert list option"
  shown :: "(string \<times> string) list"
  smsPosts :: nat
  phone_console :: "string list"

text \<open>
  What one call of the service meets: the clock (\<^verbatim>\<open>Date.now()\<close>), whether
  \<^verbatim>\<open>AsyncStorage\<close> calls reject, and what the three requests settle to. The body of
  \<^verbatim>\<open>/api/recent-readings\<close> is the array of readings; the body of
  \<^verbatim>\<open>/api/ai-recommendations\<close> is its \<^verbatim>\<open>recommendations\<close> field, \<open>None\<close> when absent.
\<close>

record env =
  now :: int
  storage_fails :: bool
  readings_res :: "(FloodData list) fetch_result"
  recommendations_res :: "(string list option) fetch_result"
  sms_res :: "unit fetch_result"

definition storage_rejects :: js_error where
  "storage_rejects = StorageError ''AsyncStorage''"

text \<open>\<^verbatim>\<open>getAlertHistory\<close> (lines 96-104): its own \<^verbatim>\<open>try/catch\<close> turns a failure into [].\<close>

definition getAlertHistory :: "env \<Rightarrow> phone \<Rightarrow> stored_alert list \<times> phone" where
  "getAlertHistory e ph =
     (if storage_fails e
      then ([], ph\<lparr>phone_console := phone_console ph @ [''Error loading alert history:'']\<rparr>)
      else (case alertHistory ph of None \<Rightarrow> ([], ph) | Some h \<Rightarrow> (h, ph)))"

text \<open>
  \<^verbatim>\<open>showFloodAlert\<close> (lines 53-94); the emoji that opens the title is left out. The first
  component of the result is the exception that leaves the function.
\<close>

definition showFloodAlert ::
  "js_runtime \<Rightarrow> env \<Rightarrow> string \<Rightarrow> real \<Rightarrow> phone \<Rightarrow> js_error option \<times> phone"
where
  "showFloodAlert rt e level pct ph =
     (let title_text = ''Flood Risk Alert: '' @ toUpperCase level;
          message_text =
            (if level = ''severe'' then
               ''SEVERE flood risk detected ('' @ numToString rt pct
                 @ ''%)! Take immediate action and evacuate if necessary.''
             else if level = ''high'' then
               ''HIGH flood risk detected ('' @ numToString rt pct
                 @ ''%)! Stay alert and prepare for potential flooding.''
             else if level = ''mild'' then
               ''MODERATE flood risk detected ('' @ numToString rt pct
                 @ ''%). Monitor conditions closely.''
             else
               ''Flood risk level: '' @ level @ '' ('' @ numToString rt pct
                 @ ''%). Stay informed.'');
          got = getAlertHistory e ph;
          newAlert = \<lparr>sa_id = numToString rt (of_int (now e)),
                      sa_title = title_text,
                      sa_message = message_text,
                      sa_riskLevel = level,
                      sa_timestamp = toISOString rt (now e),
                      sa_read = False\<rparr>;
          alerts = newAlert # fst got;
          ph1 = snd got
      in if storage_fails e then (Some storage_rejects, ph1)
         else (None, ph1\<lparr>alertHistory := Some (take 50 alerts),
                         shown := shown ph1 @ [(title_text, message_text)]\<rparr>))"

text \<open>
  The request to \<^verbatim>\<open>/api/alerts/auto-send\<close> inside \<^verbatim>\<open>checkRiskAndNotify\<close> (lines
  136-155), with its own \<^verbatim>\<open>try/catch\<close>.
\<close>

definition triggerSms :: "env \<Rightarrow> phone \<Rightarrow> phone" where
  "triggerSms e ph =
     (let ph1 = ph\<lparr>smsPosts := smsPosts ph + 1\<rparr>
      in case sms_res e of
           Rejected err \<Rightarrow> ph1\<lparr>phone_console := phone_console ph1 @ [''SMS alert error:'']\<rparr>
         | Response ok body \<Rightarrow>
             if ok then
               (case body of
                  Inl err \<Rightarrow> ph1\<lparr>phone_console := phone_console ph1 @ [''SMS alert error:'']\<rparr>
                | Inr u \<Rightarrow> ph1)
             else ph1\<lparr>phone_console := phone_console ph1 @ [''Failed to trigger SMS alerts:'']\<rparr>)"

text \<open>
  \<^verbatim>\<open>checkRiskAndNotify\<close> (lines 106-165). \<^verbatim>\<open>previousRisk && ...\<close> tests the number
  \<open>previousRisk\<close> for truthiness: 0 is falsy. The difference of the two risks is the
  runtime's, a rounded difference of doubles.
\<close>

definition shouldAlert :: "js_runtime \<Rightarrow> real \<Rightarrow> real \<Rightarrow> bool" where
  "shouldAlert rt currentRisk previousRisk =
     (currentRisk \<ge> 0.4
      \<or> (previousRisk \<noteq> 0 \<and> minus rt currentRisk previousRisk \<ge> 0.05))"

definition cooldownTime :: "real \<Rightarrow> int" where
  "cooldownTime currentRisk = (if currentRisk \<ge> 0.7 then 30 * 60 * 1000 else 60 * 60 * 1000)"

definition checkRiskAndNotify ::
  "js_runtime \<Rightarrow> env \<Rightarrow> real \<Rightarrow> real \<Rightarrow> string \<Rightarrow> phone \<Rightarrow> js_error option \<times> phone"
where
  "checkRiskAndNotify rt e currentRisk previousRisk level ph =
     (if shouldAlert rt currentRisk previousRisk then
        if storage_fails e then (Some storage_rejects, ph)
        else
          (let shouldShowAlert =
                 (case lastFloodAlert ph of
                    None \<Rightarrow> True
                  | Some t \<Rightarrow> now e - t > cooldownTime currentRisk)
           in if shouldShowAlert then
                (let r = showFloodAlert rt e level (times rt currentRisk 100) ph
                 in case fst r of
                      Some err \<Rightarrow> (Some err, snd r)
                    | None \<Rightarrow>
                        (let ph1 = (if currentRisk \<ge> 0.7 \<or> level = ''high'' \<or> level = ''severe''
                                    then triggerSms e (snd r) else snd r)
                         in (None, ph1\<lparr>lastFloodAlert := Some (now e),
                                         lastRiskLevel := Some currentRisk\<rparr>)))
              else
                (None, ph\<lparr>phone_console := phone_console ph @ [''Alert suppressed due to cooldown''],
                          lastRiskLevel := Some currentRisk\<rparr>))
      else (None, ph))"

definition defaultRecommendations :: "string list" where
  "defaultRecommendations =
     [''Monitor weather conditions regularly'',
      ''Check drainage systems in your area'',
      ''Stay informed about weather updates'',
      ''Keep emergency contacts handy'']"

text \<open>\<^verbatim>\<open>getRecommendations\<close> (lines 264-286): every failure gives the default list.\<close>

definition getRecommendations :: "env \<Rightarrow> phone \<Rightarrow> string list \<times> phone" where
  "getRecommendations e ph =
     (case recommendations_res e of
        Rejected err \<Rightarrow>
          (defaultRecommendations,
           ph\<lparr>phone_console := phone_console ph @ [''Recommendations Error:'']\<rparr>)
      | Response ok body \<Rightarrow>
          if ok then
            (case body of
               Inl err \<Rightarrow>
                 (defaultRecommendations,
                  ph\<lparr>phone_console := phone_console ph @ [''Recommendations Error:'']\<rparr>)
             | Inr None \<Rightarrow> (defaultRecommendations, ph)
             | Inr (Some recs) \<Rightarrow> (recs, ph))
          else (defaultRecommendations, ph))"

text \<open>The inline classification of \<^verbatim>\<open>getFloodStatus\<close> (lines 182-190).\<close>

definition classifyRisk :: "real \<Rightarrow> string" where
  "classifyRisk p =
     (if p \<ge> 0.8 then ''severe''
      else if p \<ge> 0.6 then ''high''
      else if p \<ge> 0.4 then ''mild''
      else ''low'')"

text \<open>\<^verbatim>\<open>x || d\<close> on numbers: 0 is falsy.\<close>

definition or_default :: "real \<Rightarrow> real \<Rightarrow> real" where
  "or_default x d = (if x = 0 then d else x)"

definition fallbackData :: "js_runtime \<Rightarrow> env \<Rightarrow> MobileFloodData" where
  "fallbackData rt e =
     \<lparr>riskLevel = ''low'',
      riskPercentage = 15.3,
      m_rainfall = 2.5,
      m_waterLevel = 1.8,
      m_temperature = 26,
      m_humidity = 68,
      lastUpdated = toISOString rt (now e),
      recommendations =
        [''Monitor weather conditions regularly'',
         ''Check drainage systems in your area'',
         ''Stay informed about weather updates'',
         ''Keep emergency contacts handy'']\<rparr>"

text \<open>
  The body of the \<^verbatim>\<open>try\<close> block of \<^verbatim>\<open>getFloodStatus\<close> (lines 169-242): \<open>Inl\<close> is an
  exception thrown inside it.
\<close>

definition getFloodStatus_try ::
  "js_runtime \<Rightarrow> env \<Rightarrow> phone \<Rightarrow> (js_error + MobileFloodData) \<times> phone"
where
  "getFloodStatus_try rt e ph =
     (case readings_res e of
        Rejected err \<Rightarrow> (Inl err, ph)
      | Response ok body \<Rightarrow>
          if \<not> ok then (Inl (Error ''Failed to fetch flood data''), ph)
          else
            (case body of
               Inl err \<Rightarrow> (Inl err, ph)
             | Inr readings \<Rightarrow>
                 (case readings of
                    [] \<Rightarrow> (Inr (fallbackData rt e), ph)
                  | latest # others \<Rightarrow>
                      (let level = classifyRisk (floodProbability latest);
                           recs = getRecommendations e ph;
                           floodData =
                             \<lparr>riskLevel = level,
                              riskPercentage =
                                parseFloat rt (toFixed rt 1 (times rt (floodProbability latest) 100)),
                              m_rainfall = or_default (rainfall latest) 0,
                              m_waterLevel = or_default (waterLevel latest) 0,
                              m_temperature = or_default (temperature latest) 26,
                              m_humidity = or_default (humidity latest) 68,
                              lastUpdated = timestamp latest,
                              recommendations = fst recs\<rparr>;
                           ph1 = snd recs;
                           currentRisk = floodProbability latest
                       in if storage_fails e then (Inl storage_rejects, ph1)
                          else
                            (case lastRiskLevel ph1 of
                               Some previousRisk \<Rightarrow>
                                 (let r = checkRiskAndNotify rt e currentRisk previousRisk level ph1
                                  in case fst r of
                                       Some err \<Rightarrow> (Inl err, snd r)
                                     | None \<Rightarrow> (Inr floodData, snd r))
                             | None \<Rightarrow>
                                 (let ph2 = ph1\<lparr>lastRiskLevel := Some currentRisk\<rparr>
                                  in if currentRisk \<ge> 0.4 then
                                       (let r = showFloodAlert rt e level (times rt currentRisk 100) ph2
                                        in case fst r of
                                             Some err \<Rightarrow> (Inl err, snd r)
                                           | None \<Rightarrow> (Inr floodData, snd r))
                                     else (Inr floodData, ph2)))))))"

text \<open>
  \<^verbatim>\<open>getFloodStatus\<close> (lines 167-262): the \<^verbatim>\<open>catch\<close> block logs and returns the
  placeholder. \<open>Inl\<close> would be an exception that leaves the function.
\<close>

definition getFloodStatus ::
  "js_runtime \<Rightarrow> env \<Rightarrow> phone \<Rightarrow> (js_error + MobileFloodData) \<times> phone"
where
  "getFloodStatus rt e ph =
     (let r = getFloodStatus_try rt e ph
      in case fst r of
           Inr d \<Rightarrow> (Inr d, snd r)
         | Inl err \<Rightarrow>
             (Inr (fallbackData rt e),
              (snd r)\<lparr>phone_console := phone_console (snd r) @ [''API Error: '' @ error_message err]\<rparr>))"

section \<open>Mobile app: the polling interval (HomeScreen)\<close>

text \<open>The \<^verbatim>\<open>switch\<close> of \<^verbatim>\<open>checkAndUpdateInterval\<close> (lines 362-376) and the delay given to
  \<^verbatim>\<open>setInterval\<close> (line 381), in milliseconds.\<close>

definition intervalMinutes :: "string \<Rightarrow> nat" where
  "intervalMinutes level =
     (if level = ''severe'' then 1
      else if level = ''high'' then 2
      else if level = ''mild'' then 5
      else 10)"

definition monitoringDelay :: "string \<Rightarrow> nat" where
  "monitoringDelay level = intervalMinutes level * 60 * 1000"

text \<open>
  \<^verbatim>\<open>checkAndUpdateInterval\<close> (lines 349-388): \<^verbatim>\<open>loadFloodData\<close> calls
  \<^verbatim>\<open>getFloodStatus\<close> once, a second call gives the label that sets the delay; \<open>e1\<close> and
  \<open>e2\<close> are what the two calls meet. The \<^verbatim>\<open>catch\<close> block sets five minutes.
\<close>

definition checkAndUpdateInterval :: "js_runtime \<Rightarrow> env \<Rightarrow> env \<Rightarrow> phone \<Rightarrow> nat \<times> phone" where
  "checkAndUpdateInterval rt e1 e2 ph =
     (let r1 = getFloodStatus rt e1 ph;
          r2 = getFloodStatus rt e2 (snd r1)
      in case fst r2 of
           Inr cur \<Rightarrow> (monitoringDelay (riskLevel cur), snd r2)
         | Inl err \<Rightarrow> (5 * 60 * 1000, snd r2))"

text \<open>
  The order of the labels by risk: severe above high above mild above every other
  label.
\<close>

definition risk_rank :: "string \<Rightarrow> nat" where
  "risk_rank level =
     (if level = ''severe'' then 3
      else if level = ''high'' then 2
      else if level = ''mild'' then 1
      else 0)"

section \<open>Sample inputs\<close>

text \<open>
  Concrete readings, devices and listeners at which the theorems below are evaluated. The
  sample runtime formats every number as the same text and computes exactly.
\<close>

definition reading_of :: "real \<Rightarrow> string option \<Rightarrow> FloodData" where
  "reading_of p l =
     \<lparr>timestamp = ''2025-07-01T06:00:00Z'', floodProbability = p, risk_level = l,
      rainfall = 12, waterLevel = 2, temperature = 24, humidity = 80, windSpeed = 5,
      soilMoisture = 40, drainageCapacity = 60, riverDischarge = 30, deforestation = 0,
      climateChange = 0, cloudCover = 70, urbanization = 50,
      latitude = None, longitude = None\<rparr>"

definition plain_runtime :: js_runtime where
  "plain_runtime =
     \<lparr>toFixed = (\<lambda>d x. ''n''), toISOString = (\<lambda>t. ''t''), numToString = (\<lambda>x. ''n''),
      parseFloat = (\<lambda>s. 0), minus = (\<lambda>x y. x - y), times = (\<lambda>x y. x * y)\<rparr>"

definition full_dashboard :: dashboard where
  "full_dashboard =
     \<lparr>data = replicate 50 (reading_of 0.1 (Some ''LOW'')), currentData = None,
      isConnected = False, autoAlerts = 0\<rparr>"

definition new_phone :: phone where
  "new_phone = \<lparr>lastRiskLevel = None, lastFloodAlert = None, alertHistory = None,
                 shown = [], smsPosts = 0, phone_console = []\<rparr>"

definition env_of :: "(FloodData list) fetch_result \<Rightarrow> env" where
  "env_of res = \<lparr>now = 1000000, storage_fails = False, readings_res = res,
                  recommendations_res = Response True (Inr None),
                  sms_res = Response True (Inr ())\<rparr>"

text \<open>
  The sample listeners: listener 0 throws, listener 1 counts its calls in the application
  state, listener 2 removes itself and returns, every other listener does nothing.
\<close>

definition sample_listeners :: "(string, nat) listeners" where
  "sample_listeners l d w =
     (if l = 0 then ([], Some (TypeError ''cannot read properties of null''), w)
      else if l = 1 then ([], None, w + 1)
      else if l = 2 then ([Call_removeRealtimeListener 2], None, w)
      else ([], None, w))"

definition parse_any :: "string \<Rightarrow> js_error + string" where
  "parse_any msg = Inr msg"


definition client_with :: "nat list \<Rightarrow> (string, nat) client" where
  "client_with ls =
     \<lparr>ws = Some 0, wsListeners = ls, retired = [], sockets = 1, timeouts = [], fired = 0,
      console = [], world = 0, invoked = []\<rparr>"

definition form_of :: "string \<Rightarrow> string \<Rightarrow> string \<Rightarrow> portal" where
  "form_of ph nm ar =
     \<lparr>registrationData = \<lparr>phone_number = ph, name = nm, area = ar,
                            reg_latitude = 30.3165, reg_longitude = 78.0322\<rparr>,
      portal_message = None, loading = False, posts = [], userFetches = 0\<rparr>"

section \<open>Properties of the web API client\<close>

text \<open>
  C10, as the code has it: an ok response whose body is JSON gives an array, the body
  itself when it is an array and the empty array otherwise; the call throws exactly when
  the request is rejected, the response is not ok, or the body of an ok response is not
  JSON.
\<close>

theorem getRecentReadings_result:
  "getRecentReadings (Response True (Inr body))
     = Inr (case body of JArr xs \<Rightarrow> xs | _ \<Rightarrow> [])
   \<and> (isArray body \<longrightarrow> body = JArr (projr (getRecentReadings (Response True (Inr body)))))
   \<and> (\<not> isArray body \<longrightarrow> getRecentReadings (Response True (Inr body)) = Inr [])
   \<and> (isl (getRecentReadings res)
        \<longleftrightarrow> (case res of Rejected e \<Rightarrow> True | Response ok b \<Rightarrow> \<not> ok \<or> isl b))"
  by (auto simp: getRecentReadings_def isArray_def
           split: json.splits fetch_result.splits sum.splits)

theorem getRecentReadings_result_witness:
  "isArray (JArr [JNum 1, JNull])
   \<and> getRecentReadings (Response True (Inr (JArr [JNum 1, JNull]))) = Inr [JNum 1, JNull]
   \<and> \<not> isArray (JObj [(''readings'', JArr [])])
   \<and> getRecentReadings (Response True (Inr (JObj [(''readings'', JArr [])]))) = Inr []
   \<and> isl (getRecentReadings (Response False (Inr (JArr []))))"
  using getRecentReadings_result [of "JArr [JNum 1, JNull]" "Response False (Inr (JArr []))"]
        getRecentReadings_result [of "JObj [(''readings'', JArr [])]" "Response False (Inr (JArr []))"]
  by (simp add: isArray_def)

text \<open>
  C10 as stated fails: an ok response whose body is not JSON makes
  \<^verbatim>\<open>getRecentReadings\<close> throw, although the response is ok.
\<close>

theorem getRecentReadings_ok_not_json_throws:
  "getRecentReadings (Response True (Inl (SyntaxError ''Unexpected token <'')))
     = Inl (SyntaxError ''Unexpected token <'')"
  by (simp add: getRecentReadings_def)

text \<open>A call on the client touches neither the timers, nor the log, nor the application.\<close>

lemma apply_call_frame:
  "timeouts (apply_call a c) = timeouts c \<and> console (apply_call a c) = console c
   \<and> world (apply_call a c) = world c \<and> invoked (apply_call a c) = invoked c"
  by (cases a)
     (simp_all add: apply_call_def connectWebSocket_def disconnectWebSocket_def
        onRealtimeData_def removeRealtimeListener_def Let_def)

lemma apply_calls_frame:
  "timeouts (apply_calls as c) = timeouts c \<and> console (apply_calls as c) = console c
   \<and> world (apply_calls as c) = world c \<and> invoked (apply_calls as c) = invoked c"
proof (induction as arbitrary: c)
  case Nil
  show ?case by (simp add: apply_calls_def)
next
  case (Cons a as)
  have "apply_calls (a # as) c = apply_calls as (apply_call a c)"
    by (simp add: apply_calls_def)
  then show ?case
    using Cons [of "apply_call a c"] apply_call_frame [of a c] by simp
qed

lemma invoke_frame:
  "fst (invoke beh l d c) = fst (snd (beh l d (world c)))
   \<and> timeouts (snd (invoke beh l d c)) = timeouts c
   \<and> console (snd (invoke beh l d c)) = console c
   \<and> world (snd (invoke beh l d c)) = snd (snd (beh l d (world c)))
   \<and> invoked (snd (invoke beh l d c)) = invoked c @ [(l, d)]"
  by (simp add: invoke_def Let_def apply_calls_frame)

lemma forEach_loop_timeouts: "timeouts (snd (forEach_loop beh g k n d c)) = timeouts c"
proof (induction n arbitrary: k c)
  case 0
  show ?case by simp
next
  case (Suc n)
  show ?case
    using Suc [of "Suc k" c] Suc [of "Suc k" "snd (invoke beh (array_of c g ! k) d c)"]
    by (simp add: Let_def invoke_frame split: option.splits)
qed

lemma timeouts_step:
  "timeouts (step parse beh c ev) = timeouts c @ (if is_Closed ev then [5000] else [])"
proof (cases ev)
  case (Message msg)
  then show ?thesis
    by (auto simp: step_def is_Closed_def onmessage_def forEach_def Let_def forEach_loop_timeouts
             split: sum.splits option.splits)
next
  case (Called a)
  then show ?thesis
    by (simp add: step_def is_Closed_def apply_call_frame)
qed (auto simp: step_def is_Closed_def onopen_def onclose_def onerror_def timeout_fires_def
       connectWebSocket_def)

lemma timeouts_run:
  "timeouts (run parse beh c evs) = timeouts c @ replicate (length (filter is_Closed evs)) 5000"
proof (induction evs rule: rev_induct)
  case Nil
  show ?case by (simp add: run_def)
next
  case (snoc ev evs)
  have "run parse beh c (evs @ [ev]) = step parse beh (run parse beh c evs) ev"
    by (simp add: run_def)
  then show ?case
    using snoc by (simp add: timeouts_step replicate_append_same)
qed

text \<open>
  C5: every close of the socket schedules one reconnect, always with the delay 5000 ms,
  whatever happened before: after any sequence of events the timers scheduled are one
  timer of 5000 ms per close, so the delay never grows and no close goes without its
  timer; and a scheduled timer that runs constructs a new socket.
\<close>

theorem reconnect_fixed_delay_no_cap:
  "timeouts (onclose c) = timeouts c @ [5000]
   \<and> timeouts (run parse beh c evs) = timeouts c @ replicate (length (filter is_Closed evs)) 5000
   \<and> timeouts (run parse beh c (evs @ [Closed])) = timeouts (run parse beh c evs) @ [5000]
   \<and> (fired c < length (timeouts c) \<longrightarrow>
        ws (timeout_fires c) = Some (sockets c) \<and> sockets (timeout_fires c) = Suc (sockets c))"
  by (simp add: timeouts_run onclose_def is_Closed_def replicate_append_same
        timeout_fires_def connectWebSocket_def)

theorem reconnect_fixed_delay_no_cap_witness:
  "fired (onclose (client_with [])) < length (timeouts (onclose (client_with [])))
   \<and> ws (timeout_fires (onclose (client_with []))) = Some 1
   \<and> sockets (timeout_fires (onclose (client_with []))) = 2
   \<and> timeouts (run parse_any sample_listeners (client_with [])
        [Closed, TimeoutFired, Closed, Called Call_disconnectWebSocket, Closed])
       = [5000, 5000, 5000]"
  using reconnect_fixed_delay_no_cap [of "onclose (client_with [])" parse_any sample_listeners
          "[Closed, TimeoutFired, Closed, Called Call_disconnectWebSocket, Closed]"]
        reconnect_fixed_delay_no_cap [of "client_with []" parse_any sample_listeners
          "[Closed, TimeoutFired, Closed, Called Call_disconnectWebSocket, Closed]"]
  by (simp add: onclose_def client_with_def is_Closed_def numeral_3_eq_3)












section \<open>Properties of the web dashboard\<close>

lemma js_slice_49: "js_slice (- 49) xs = drop (length xs - 49) xs"
  by (auto simp: js_slice_def Let_def max_def nat_diff_distrib')

lemma data_callback:
  "data (onRealtimeData_callback r st) = drop (length (data st) - 49) (data st) @ [r]"
  by (simp add: onRealtimeData_callback_def Let_def js_slice_49)

lemma deliver_snoc: "deliver st (rs @ [r]) = onRealtimeData_callback r (deliver st rs)"
  by (simp add: deliver_def)

lemma window_step:
  "drop (length (drop (length ys - 50) ys) - 49) (drop (length ys - 50) ys) @ [r]
     = drop (length (ys @ [r]) - 50) (ys @ [r])"
proof -
  have "length ys - (length ys - 50) - 49 + (length ys - 50) = length ys - 49"
    by arith
  then have "drop (length (drop (length ys - 50) ys) - 49) (drop (length ys - 50) ys)
               = drop (length ys - 49) ys"
    by simp
  moreover have "drop (length (ys @ [r]) - 50) (ys @ [r]) = drop (length ys - 49) ys @ [r]"
    by simp
  ultimately show ?thesis
    by simp
qed

text \<open>After at least one delivery the buffer is the last 50 of everything seen so far.\<close>

lemma deliver_data:
  "rs \<noteq> [] \<Longrightarrow> data (deliver st rs) = drop (length (data st @ rs) - 50) (data st @ rs)"
proof (induction rs rule: rev_induct)
  case Nil
  then show ?case by simp
next
  case (snoc r rs)
  show ?case
  proof (cases "rs = []")
    case True
    then show ?thesis
      by (simp add: deliver_def data_callback)
  next
    case False
    with snoc have IH:
      "data (deliver st rs) = drop (length (data st @ rs) - 50) (data st @ rs)"
      by simp
    show ?thesis
      unfolding deliver_snoc data_callback IH
      using window_step [of "data st @ rs" r] by simp
  qed
qed

text \<open>
  C2: whatever the dashboard held and whatever readings \<open>rs\<close> were delivered before, after
  the delivery of a reading \<open>r\<close> the buffer holds at most 50 readings and \<open>r\<close> is its last
  element; it is the last 50 of the initial buffer followed by all delivered readings; a
  buffer of fewer than 50 readings only grows by \<open>r\<close>, and a buffer that had reached 50
  loses its oldest reading.
\<close>

theorem readings_buffer_rolling_window:
  "length (data (deliver st (rs @ [r]))) \<le> 50
   \<and> last (data (deliver st (rs @ [r]))) = r
   \<and> data (deliver st (rs @ [r]))
       = drop (length (data st @ rs @ [r]) - 50) (data st @ rs @ [r])
   \<and> (length (data (deliver st rs)) < 50 \<longrightarrow>
        data (deliver st (rs @ [r])) = data (deliver st rs) @ [r])
   \<and> (length (data (deliver st rs)) = 50 \<longrightarrow>
        data (deliver st (rs @ [r])) = tl (data (deliver st rs)) @ [r])"
proof (intro conjI impI)
  show "length (data (deliver st (rs @ [r]))) \<le> 50"
    by (simp add: deliver_snoc data_callback)
  show "last (data (deliver st (rs @ [r]))) = r"
    by (simp add: deliver_snoc data_callback)
  show "data (deliver st (rs @ [r]))
          = drop (length (data st @ rs @ [r]) - 50) (data st @ rs @ [r])"
    using deliver_data [of "rs @ [r]" st] by simp
next
  assume "length (data (deliver st rs)) < 50"
  then show "data (deliver st (rs @ [r])) = data (deliver st rs) @ [r]"
    by (simp add: deliver_snoc data_callback)
next
  assume "length (data (deliver st rs)) = 50"
  then show "data (deliver st (rs @ [r])) = tl (data (deliver st rs)) @ [r]"
    by (simp add: deliver_snoc data_callback drop_Suc)
qed

theorem readings_buffer_rolling_window_witness:
  "length (data (deliver full_dashboard [])) = 50
   \<and> data (deliver full_dashboard ([] @ [reading_of 0.9 (Some ''SEVERE'')]))
       = replicate 49 (reading_of 0.1 (Some ''LOW'')) @ [reading_of 0.9 (Some ''SEVERE'')]
   \<and> length (data (deliver (full_dashboard\<lparr>data := []\<rparr>) [])) < 50
   \<and> data (deliver (full_dashboard\<lparr>data := []\<rparr>) ([] @ [reading_of 0.9 (Some ''SEVERE'')]))
       = [reading_of 0.9 (Some ''SEVERE'')]"
  using readings_buffer_rolling_window [of full_dashboard "[]" "reading_of 0.9 (Some ''SEVERE'')"]
        readings_buffer_rolling_window [of "full_dashboard\<lparr>data := []\<rparr>" "[]"
          "reading_of 0.9 (Some ''SEVERE'')"]
  by (simp add: deliver_def full_dashboard_def)

text \<open>
  C3: for a reading whose label is SEVERE the status card gives the flood-risk figure the
  red class, and the sample-alert generator returns exactly one alert, of type critical
  and not acknowledged.
\<close>

theorem severe_reading_red_card_one_critical_alert:
  "risk_level d = Some ''SEVERE'' \<Longrightarrow>
     fst (StatusCards_floodRisk rt (Some d)) = ''text-2xl font-bold text-red-600''
     \<and> map (\<lambda>a. (alert_type a, acknowledged a))
           (generateSampleAlerts rt t (floodProbability d) (risk_level d)) = [(critical, False)]"
  by (simp add: StatusCards_floodRisk_def risk_color_class_def truthy_str_def
        generateSampleAlerts_def)

theorem severe_reading_red_card_one_critical_alert_witness:
  "risk_level (reading_of 0.9 (Some ''SEVERE'')) = Some ''SEVERE''
   \<and> fst (StatusCards_floodRisk plain_runtime (Some (reading_of 0.9 (Some ''SEVERE''))))
       = ''text-2xl font-bold text-red-600''
   \<and> map (\<lambda>a. (alert_type a, acknowledged a))
         (generateSampleAlerts plain_runtime 1000 0.9 (Some ''SEVERE'')) = [(critical, False)]"
  using severe_reading_red_card_one_critical_alert
          [of "reading_of 0.9 (Some ''SEVERE'')" plain_runtime 1000]
  by (simp add: reading_of_def)

text \<open>
  C9: the handler sends the POST only for a form whose phone number matches the pattern,
  whose trimmed name is not empty and whose area is selected, and then sends exactly the
  form data; for every other form it sends nothing, sets an error message and leaves the
  registration data (and the loading flag) as they were.
\<close>

theorem handleRegistration_validates:
  "(posts (handleRegistration net st) \<noteq> posts st \<longrightarrow> valid_registration (registrationData st))
   \<and> (valid_registration (registrationData st) \<longrightarrow>
        posts (handleRegistration net st) = posts st @ [registrationData st])
   \<and> (\<not> valid_registration (registrationData st) \<longrightarrow>
        posts (handleRegistration net st) = posts st
        \<and> (\<exists>t. portal_message (handleRegistration net st) = Some (msg_error, t))
        \<and> registrationData (handleRegistration net st) = registrationData st
        \<and> loading (handleRegistration net st) = loading st)"
  by (auto simp: handleRegistration_def valid_registration_def Let_def
           split: fetch_result.splits sum.splits option.splits)

lemma sample_phone_ok: "phoneRegex_test ''+919876543210''"
  by code_simp

lemma sample_phone_bad: "\<not> phoneRegex_test ''9876543210''"
  by code_simp

lemma sample_name_ok: "trim '' Asha '' = ''Asha''"
  by code_simp

lemma sample_name_blank: "trim ''   '' = []"
  by code_simp

lemma sample_name_plain: "trim ''Asha'' = ''Asha''"
  by code_simp

theorem handleRegistration_validates_witness:
  "valid_registration (registrationData (form_of ''+919876543210'' '' Asha '' ''Clock Tower''))
   \<and> posts (handleRegistration (Response True (Inr None))
              (form_of ''+919876543210'' '' Asha '' ''Clock Tower''))
       = [registrationData (form_of ''+919876543210'' '' Asha '' ''Clock Tower'')]
   \<and> \<not> valid_registration (registrationData (form_of ''9876543210'' ''Asha'' ''Clock Tower''))
   \<and> posts (handleRegistration (Response True (Inr None))
              (form_of ''9876543210'' ''Asha'' ''Clock Tower'')) = []
   \<and> \<not> valid_registration (registrationData (form_of ''+919876543210'' ''   '' ''Clock Tower''))
   \<and> registrationData (handleRegistration (Response True (Inr None))
              (form_of ''+919876543210'' ''   '' ''Clock Tower''))
       = registrationData (form_of ''+919876543210'' ''   '' ''Clock Tower'')
   \<and> \<not> valid_registration (registrationData (form_of ''+919876543210'' ''Asha'' []))
   \<and> portal_message (handleRegistration (Response True (Inr None))
              (form_of ''+919876543210'' ''Asha'' []))
       = Some (msg_error, ''Please select your area'')"
  using handleRegistration_validates [of "Response True (Inr None)"
          "form_of ''+919876543210'' '' Asha '' ''Clock Tower''"]
        handleRegistration_validates [of "Response True (Inr None)"
          "form_of ''9876543210'' ''Asha'' ''Clock Tower''"]
        handleRegistration_validates [of "Response True (Inr None)"
          "form_of ''+919876543210'' ''   '' ''Clock Tower''"]
        handleRegistration_validates [of "Response True (Inr None)"
          "form_of ''+919876543210'' ''Asha'' []"]
        sample_phone_ok sample_phone_bad sample_name_ok sample_name_blank sample_name_plain
  by (simp add: valid_registration_def form_of_def handleRegistration_def Let_def)

section \<open>Properties of the mobile app\<close>

lemma getFloodStatus_returns: "\<exists>d. fst (getFloodStatus rt e ph) = Inr d"
  by (cases "fst (getFloodStatus_try rt e ph)") (simp_all add: getFloodStatus_def Let_def)

text \<open>
  C6: \<^verbatim>\<open>getFloodStatus\<close> always returns a value, no exception leaves it; and when the
  fetch is rejected, when the response is not ok, and when the list of readings is empty,
  the value is the placeholder: risk level low, 15.3 percent, rainfall 2.5, water level
  1.8, temperature 26, humidity 68 and the four default recommendations.
\<close>

theorem getFloodStatus_never_throws_fallback:
  "(\<exists>d. fst (getFloodStatus rt e ph) = Inr d)
   \<and> (readings_res e = Rejected err \<longrightarrow>
        fst (getFloodStatus rt e ph) = Inr (fallbackData rt e))
   \<and> (readings_res e = Response False body \<longrightarrow>
        fst (getFloodStatus rt e ph) = Inr (fallbackData rt e))
   \<and> (readings_res e = Response ok (Inr []) \<longrightarrow>
        fst (getFloodStatus rt e ph) = Inr (fallbackData rt e))
   \<and> riskLevel (fallbackData rt e) = ''low''
   \<and> riskPercentage (fallbackData rt e) = 15.3
   \<and> m_rainfall (fallbackData rt e) = 2.5
   \<and> m_waterLevel (fallbackData rt e) = 1.8
   \<and> m_temperature (fallbackData rt e) = 26
   \<and> m_humidity (fallbackData rt e) = 68
   \<and> recommendations (fallbackData rt e) =
        [''Monitor weather conditions regularly'',
         ''Check drainage systems in your area'',
         ''Stay informed about weather updates'',
         ''Keep emergency contacts handy'']"
proof (intro conjI impI)
  show "\<exists>d. fst (getFloodStatus rt e ph) = Inr d"
    by (rule getFloodStatus_returns)
next
  assume "readings_res e = Rejected err"
  then show "fst (getFloodStatus rt e ph) = Inr (fallbackData rt e)"
    by (simp add: getFloodStatus_def getFloodStatus_try_def)
next
  assume "readings_res e = Response False body"
  then show "fst (getFloodStatus rt e ph) = Inr (fallbackData rt e)"
    by (simp add: getFloodStatus_def getFloodStatus_try_def)
next
  assume "readings_res e = Response ok (Inr [])"
  then show "fst (getFloodStatus rt e ph) = Inr (fallbackData rt e)"
    by (simp add: getFloodStatus_def getFloodStatus_try_def)
qed (simp_all add: fallbackData_def)

theorem getFloodStatus_never_throws_fallback_witness:
  "readings_res (env_of (Rejected (TypeError ''Network request failed'')))
     = Rejected (TypeError ''Network request failed'')
   \<and> fst (getFloodStatus plain_runtime
            (env_of (Rejected (TypeError ''Network request failed''))) new_phone)
       = Inr (fallbackData plain_runtime (env_of (Rejected (TypeError ''Network request failed''))))
   \<and> readings_res (env_of (Response False (Inr []))) = Response False (Inr [])
   \<and> fst (getFloodStatus plain_runtime (env_of (Response False (Inr []))) new_phone)
       = Inr (fallbackData plain_runtime (env_of (Response False (Inr []))))
   \<and> readings_res (env_of (Response True (Inr []))) = Response True (Inr [])
   \<and> fst (getFloodStatus plain_runtime (env_of (Response True (Inr []))) new_phone)
       = Inr (fallbackData plain_runtime (env_of (Response True (Inr []))))"
  using getFloodStatus_never_throws_fallback
          [of plain_runtime "env_of (Rejected (TypeError ''Network request failed''))" new_phone
              "TypeError ''Network request failed''"]
        getFloodStatus_never_throws_fallback
          [of plain_runtime "env_of (Response False (Inr []))" new_phone _ "Inr []"]
        getFloodStatus_never_throws_fallback
          [of plain_runtime "env_of (Response True (Inr []))" new_phone _ _ True]
  by (simp add: env_of_def)

text \<open>
  C4: the polling interval is a table of the label: severe gives 1 minute, high 2, mild 5
  and every other label 10, and the delay of the timer is that many minutes. A label of
  strictly higher risk never gives a longer interval; in particular a higher probability,
  classified by \<^verbatim>\<open>getFloodStatus\<close>, never gives a longer interval. The delay that
  \<^verbatim>\<open>checkAndUpdateInterval\<close> sets is the table's entry for the label just fetched.
\<close>

theorem polling_interval_table_monotone:
  "intervalMinutes ''severe'' = 1
   \<and> intervalMinutes ''high'' = 2
   \<and> intervalMinutes ''mild'' = 5
   \<and> (l \<noteq> ''severe'' \<and> l \<noteq> ''high'' \<and> l \<noteq> ''mild'' \<longrightarrow> intervalMinutes l = 10)
   \<and> monitoringDelay l = intervalMinutes l * 60000
   \<and> (risk_rank a < risk_rank b \<longrightarrow> intervalMinutes b \<le> intervalMinutes a)
   \<and> (p \<le> q \<longrightarrow> intervalMinutes (classifyRisk q) \<le> intervalMinutes (classifyRisk p))
   \<and> (\<exists>d. fst (getFloodStatus rt e2 (snd (getFloodStatus rt e1 ph))) = Inr d
          \<and> fst (checkAndUpdateInterval rt e1 e2 ph) = monitoringDelay (riskLevel d))"
proof (intro conjI impI)
  assume "risk_rank a < risk_rank b"
  then show "intervalMinutes b \<le> intervalMinutes a"
    by (simp add: risk_rank_def intervalMinutes_def split: if_splits)
next
  assume "p \<le> q"
  then show "intervalMinutes (classifyRisk q) \<le> intervalMinutes (classifyRisk p)"
    by (simp add: classifyRisk_def intervalMinutes_def)
next
  from getFloodStatus_returns[of rt e2 "snd (getFloodStatus rt e1 ph)"]
  obtain d where d: "fst (getFloodStatus rt e2 (snd (getFloodStatus rt e1 ph))) = Inr d"
    by blast
  then show "\<exists>d. fst (getFloodStatus rt e2 (snd (getFloodStatus rt e1 ph))) = Inr d
          \<and> fst (checkAndUpdateInterval rt e1 e2 ph) = monitoringDelay (riskLevel d)"
    by (intro exI[of _ d]) (simp add: checkAndUpdateInterval_def Let_def)
qed (simp_all add: intervalMinutes_def monitoringDelay_def)

theorem polling_interval_table_monotone_witness:
  "intervalMinutes ''low'' = 10
   \<and> risk_rank ''mild'' < risk_rank ''severe''
   \<and> intervalMinutes ''severe'' \<le> intervalMinutes ''mild''
   \<and> (0.45 :: real) \<le> 0.85
   \<and> intervalMinutes (classifyRisk 0.85) \<le> intervalMinutes (classifyRisk 0.45)"
  using polling_interval_table_monotone [of "''low''" "''mild''" "''severe''" "0.45" "0.85"]
  by (simp add: risk_rank_def)

text \<open>
  C1 fails on the code. For a reading with probability 0.9 that the backend labels LOW,
  the status card and the label colour of the map show the backend's label (green), but
  the mobile app's \<^verbatim>\<open>getFloodStatus\<close> reports the level severe, which it computes from
  the probability, and the map's sensor marker is red, the colour of SEVERE, chosen by
  thresholds on the probability.
\<close>

theorem risk_recomputed_from_probability:
  "map_sum id riskLevel
     (fst (getFloodStatus plain_runtime
             (env_of (Response True (Inr [reading_of 0.9 (Some ''LOW'')]))) new_phone))
     = Inr ''severe''
   \<and> sensorMarkerColor (reading_of 0.9 (Some ''LOW'')) = ''#ef4444''
   \<and> getModelRiskColor (Some ''SEVERE'') = ''#ef4444''
   \<and> getModelRiskColor (risk_level (reading_of 0.9 (Some ''LOW''))) = ''#22c55e''
   \<and> risk_color_class (risk_level (reading_of 0.9 (Some ''LOW''))) = ''text-green-600''"
  by (simp add: getFloodStatus_def getFloodStatus_try_def env_of_def reading_of_def new_phone_def
      classifyRisk_def getRecommendations_def showFloodAlert_def getAlertHistory_def Let_def
      sensorMarkerColor_def getMarkerColor_def getModelRiskColor_def toUpperCase_def
      toUpperChar_def risk_color_class_def truthy_str_def)

text \<open>
  C7 fails on the code. With a stored previous risk of 0 and a current risk of 0.1, the
  risk has risen by more than 0.05 and nothing was alerted before, yet
  \<^verbatim>\<open>checkRiskAndNotify\<close> shows no alert, because a previous risk of 0 counts as absent;
  with a stored previous risk of 0.01 the same current risk is alerted. The same holds
  through \<^verbatim>\<open>getFloodStatus\<close>, which reads the previous risk from storage.
\<close>

theorem zero_previous_risk_not_alerted:
  "shown (snd (checkRiskAndNotify plain_runtime (env_of (Response True (Inr []))) 0.1 0 ''low''
                 (new_phone\<lparr>lastRiskLevel := Some 0\<rparr>))) = []
   \<and> shown (snd (checkRiskAndNotify plain_runtime (env_of (Response True (Inr []))) 0.1 0.01 ''low''
                 (new_phone\<lparr>lastRiskLevel := Some 0.01\<rparr>)))
       = [(''Flood Risk Alert: LOW'', ''Flood risk level: low (n%). Stay informed.'')]
   \<and> shown (snd (getFloodStatus plain_runtime
                 (env_of (Response True (Inr [reading_of 0.1 (Some ''LOW'')])))
                 (new_phone\<lparr>lastRiskLevel := Some 0\<rparr>))) = []"
  by (simp add: checkRiskAndNotify_def shouldAlert_def getFloodStatus_def getFloodStatus_try_def
      env_of_def reading_of_def new_phone_def plain_runtime_def
      classifyRisk_def getRecommendations_def showFloodAlert_def getAlertHistory_def Let_def
      toUpperCase_def toUpperChar_def char_of_def bit_Suc_0_iff)

lemma shown_triggerSms: "shown (triggerSms e ph) = shown ph"
  by (simp add: triggerSms_def Let_def split: fetch_result.splits sum.splits)

lemma showFloodAlert_ok:
  "\<not> storage_fails e \<Longrightarrow>
     fst (showFloodAlert rt e level pct ph) = None
     \<and> length (shown (snd (showFloodAlert rt e level pct ph))) = Suc (length (shown ph))"
  by (simp add: showFloodAlert_def getAlertHistory_def Let_def split: option.splits)

lemma shown_longer: "length xs = Suc (length ys) \<Longrightarrow> xs \<noteq> ys"
  by auto

text \<open>
  What \<^verbatim>\<open>checkRiskAndNotify\<close> does decide, while storage works: it shows an alert
  exactly when the current risk is at least 0.4, or the previous risk is not 0 and the
  difference of the two risks, as the runtime computes it, is at least 0.05, and moreover
  no alert time is stored or more than the cooldown has passed since it: 30 minutes for a
  current risk of at least 0.7, 60 minutes otherwise. It shows at most one alert.
\<close>

theorem checkRiskAndNotify_decision:
  "\<not> storage_fails e \<Longrightarrow>
     (shown (snd (checkRiskAndNotify rt e cur prev level ph)) \<noteq> shown ph
        \<longleftrightarrow> (cur \<ge> 0.4 \<or> (prev \<noteq> 0 \<and> minus rt cur prev \<ge> 0.05))
            \<and> (case lastFloodAlert ph of
                  None \<Rightarrow> True
                | Some t \<Rightarrow> now e - t > (if cur \<ge> 0.7 then 1800000 else 3600000)))
     \<and> length (shown (snd (checkRiskAndNotify rt e cur prev level ph))) \<le> Suc (length (shown ph))"
proof -
  assume ok: "\<not> storage_fails e"
  let ?fresh = "case lastFloodAlert ph of None \<Rightarrow> True
                | Some t \<Rightarrow> now e - t > cooldownTime cur"
  let ?r = "showFloodAlert rt e level (times rt cur 100) ph"
  from showFloodAlert_ok[OF ok, of rt level "times rt cur 100" ph]
  have none: "fst ?r = None" and len: "length (shown (snd ?r)) = Suc (length (shown ph))"
    by simp_all
  have cd: "cooldownTime cur = (if cur \<ge> 0.7 then 1800000 else 3600000)"
    by (simp add: cooldownTime_def)
  have sa: "shouldAlert rt cur prev
              \<longleftrightarrow> (cur \<ge> 0.4 \<or> (prev \<noteq> 0 \<and> minus rt cur prev \<ge> 0.05))"
    by (simp add: shouldAlert_def)
  show ?thesis
  proof (cases "shouldAlert rt cur prev \<and> ?fresh")
    case True
    then have "shown (snd (checkRiskAndNotify rt e cur prev level ph)) = shown (snd ?r)"
      using ok none by (simp add: checkRiskAndNotify_def Let_def shown_triggerSms)
    then show ?thesis
      using True len shown_longer[of "shown (snd ?r)" "shown ph"] unfolding sa cd by simp
  next
    case False
    then have "shown (snd (checkRiskAndNotify rt e cur prev level ph)) = shown ph"
      using ok by (auto simp: checkRiskAndNotify_def Let_def)
    then show ?thesis
      using False unfolding sa cd by simp
  qed
qed

theorem checkRiskAndNotify_decision_witness:
  "\<not> storage_fails (env_of (Response True (Inr [])))
   \<and> length (shown (snd (checkRiskAndNotify plain_runtime (env_of (Response True (Inr [])))
                 0.75 0.5 ''high'' (new_phone\<lparr>lastFloodAlert := Some (- 1000000)\<rparr>)))) = 1
   \<and> shown (snd (checkRiskAndNotify plain_runtime (env_of (Response True (Inr [])))
                 0.65 0.5 ''high'' (new_phone\<lparr>lastFloodAlert := Some (- 1000000)\<rparr>))) = []"
  using checkRiskAndNotify_decision [of "env_of (Response True (Inr []))" plain_runtime
          "0.75" "0.5" "''high''" "new_phone\<lparr>lastFloodAlert := Some (- 1000000)\<rparr>"]
        checkRiskAndNotify_decision [of "env_of (Response True (Inr []))" plain_runtime
          "0.65" "0.5" "''high''" "new_phone\<lparr>lastFloodAlert := Some (- 1000000)\<rparr>"]
  by (simp add: env_of_def new_phone_def checkRiskAndNotify_def shouldAlert_def cooldownTime_def
        showFloodAlert_def getAlertHistory_def triggerSms_def Let_def plain_runtime_def)

end
